theory Spec2Isabelle
  imports Complex_Main "HOL-Library.Multiset"
begin

section \<open>Server: data model\<close>

text \<open>
  The learning routes of \<^verbatim>\<open>server/routes.ts\<close> and the \<^verbatim>\<open>GameEngine\<close> component.
  JavaScript numbers holding a mastery score or a value of \<^verbatim>\<open>Math.random()\<close> are
  modelled as reals, integer-valued numbers as \<open>int\<close> or \<open>nat\<close>.
\<close>

record question =
  qid :: nat
  topicId :: nat
  content :: string
  correctAnswer :: string
  distractors :: "string list"
  difficulty :: int
  explanation :: "string option"

record learningEvent =
  ev_studentId :: nat
  ev_questionId :: nat
  ev_correct :: bool
  ev_timeTaken :: int

record store =
  questions :: "question list"
  mastery :: "nat \<times> nat \<rightharpoonup> real"
  events :: "learningEvent list"

record session =
  userId :: "nat option"

record submitBody =
  questionId :: nat
  answer :: string
  timeTaken :: int

record outcome =
  o_correct :: bool
  o_correctAnswer :: string
  o_coinsEarned :: int
  o_newMastery :: real
  o_feedback :: string

datatype error = Unauthenticated | NotFound

section \<open>Server: the storage interface\<close>

definition getMastery :: "store \<Rightarrow> nat \<Rightarrow> nat \<Rightarrow> real option" where
  \<comment> \<open>Modelled from the spec: \<^verbatim>\<open>storage.getMastery\<close> (server/storage.ts is not part of the
      sources): the score of the mastery record of (student, topic), or absent.\<close>
  "getMastery st studentId tid = mastery st (studentId, tid)"

definition updateMastery :: "store \<Rightarrow> nat \<Rightarrow> nat \<Rightarrow> real \<Rightarrow> store" where
  \<comment> \<open>Modelled from the spec: \<^verbatim>\<open>storage.updateMastery\<close> (server/storage.ts is not part of
      the sources): an upsert of the score of (student, topic).\<close>
  "updateMastery st studentId tid sc = st\<lparr>mastery := (mastery st)((studentId, tid) \<mapsto> sc)\<rparr>"

definition logLearningEvent :: "store \<Rightarrow> nat \<Rightarrow> nat \<Rightarrow> bool \<Rightarrow> int \<Rightarrow> store" where
  \<comment> \<open>Modelled from the spec: \<^verbatim>\<open>storage.logLearningEvent\<close> (server/storage.ts is not part
      of the sources): one append to the event log.\<close>
  "logLearningEvent st studentId qn isCorrect tt =
     st\<lparr>events := events st @
       [\<lparr>ev_studentId = studentId, ev_questionId = qn, ev_correct = isCorrect, ev_timeTaken = tt\<rparr>]\<rparr>"

definition getQuestionsByTopic :: "store \<Rightarrow> nat \<Rightarrow> question list" where
  \<comment> \<open>Modelled from the spec: \<^verbatim>\<open>storage.getQuestionsByTopic\<close> (server/storage.ts is not
      part of the sources): all questions owned by the topic.\<close>
  "getQuestionsByTopic st tid = filter (\<lambda>q. topicId q = tid) (questions st)"

definition getQuestion :: "store \<Rightarrow> nat \<Rightarrow> question option" where
  \<comment> \<open>Modelled from the spec: \<^verbatim>\<open>storage.getQuestion\<close> (server/storage.ts is not part of the
      sources): the question with this id, or absent.\<close>
  "getQuestion st qn = find (\<lambda>q. qid q = qn) (questions st)"

section \<open>Server: the learning routes\<close>

definition authenticated :: "session \<Rightarrow> bool" where
  \<comment> \<open>\<^verbatim>\<open>!req.session.userId\<close> is true for a missing id and for the number 0.\<close>
  "authenticated sess = (case userId sess of None \<Rightarrow> False | Some u \<Rightarrow> u \<noteq> 0)"

definition currentScore :: "store \<Rightarrow> nat \<Rightarrow> nat \<Rightarrow> real" where
  \<comment> \<open>\<^verbatim>\<open>topicMastery?.score || 0\<close>\<close>
  "currentScore st studentId tid =
     (case getMastery st studentId tid of
        None \<Rightarrow> 0
      | Some sc \<Rightarrow> (if sc = 0 then 0 else sc))"

definition targetDifficulty :: "real \<Rightarrow> int" where
  \<comment> \<open>\<^verbatim>\<open>Math.max(1, Math.min(5, Math.floor(currentScore * 5) + 1))\<close>\<close>
  "targetDifficulty sc = max 1 (min 5 (\<lfloor>sc * 5\<rfloor> + 1))"

definition at_index :: "'a list \<Rightarrow> int \<Rightarrow> 'a option" where
  \<comment> \<open>Array indexing: \<^verbatim>\<open>undefined\<close> (here \<open>None\<close>) outside the array.\<close>
  "at_index xs i = (if 0 \<le> i \<and> i < int (length xs) then Some (xs ! nat i) else None)"

definition candidateQuestions :: "question list \<Rightarrow> int \<Rightarrow> question list" where
  "candidateQuestions allQuestions d =
     (let cs = filter (\<lambda>q. difficulty q = d) allQuestions
      in if length cs = 0 then allQuestions else cs)"

definition getNextQuestion :: "session \<Rightarrow> nat \<Rightarrow> real \<Rightarrow> store \<Rightarrow> error + question option" where
  \<comment> \<open>\<open>rnd\<close> is the value of \<^verbatim>\<open>Math.random()\<close>; the route only reads the store.\<close>
  "getNextQuestion sess tid rnd st =
     (case userId sess of
        None \<Rightarrow> Inl Unauthenticated
      | Some u \<Rightarrow>
          if u = 0 then Inl Unauthenticated
          else
            let d = targetDifficulty (currentScore st u tid);
                allQuestions = getQuestionsByTopic st tid
            in if length allQuestions = 0 then Inl NotFound
               else
                 let cs = candidateQuestions allQuestions d
                 in Inr (at_index cs \<lfloor>rnd * real (length cs)\<rfloor>))"

definition newMasteryOf :: "store \<Rightarrow> nat \<Rightarrow> nat \<Rightarrow> real" where
  \<comment> \<open>\<^verbatim>\<open>masteryRecord?.score || 0\<close>\<close>
  "newMasteryOf st studentId tid =
     (case getMastery st studentId tid of
        None \<Rightarrow> 0
      | Some sc \<Rightarrow> (if sc = 0 then 0 else sc))"

definition feedbackOf :: "question \<Rightarrow> bool \<Rightarrow> string" where
  \<comment> \<open>\<^verbatim>\<open>isCorrect ? "Great job!" : question.explanation || "Keep trying!"\<close>: the
      operator \<^verbatim>\<open>||\<close> takes its right operand for \<^verbatim>\<open>null\<close> and for the empty string.\<close>
  "feedbackOf q isCorrect =
     (if isCorrect then ''Great job!''
      else (case explanation q of
              None \<Rightarrow> ''Keep trying!''
            | Some e \<Rightarrow> (if e = [] then ''Keep trying!'' else e)))"

definition submitAnswer :: "session \<Rightarrow> submitBody \<Rightarrow> store \<Rightarrow> (error + outcome) \<times> store" where
  "submitAnswer sess body st =
     (case userId sess of
        None \<Rightarrow> (Inl Unauthenticated, st)
      | Some u \<Rightarrow>
          if u = 0 then (Inl Unauthenticated, st)
          else
            (case getQuestion st (questionId body) of
               None \<Rightarrow> (Inl NotFound, st)
             | Some q \<Rightarrow>
                 let isCorrect = (correctAnswer q = answer body);
                     st1 = logLearningEvent st u (questionId body) isCorrect (timeTaken body);
                     st2 = updateMastery st1 u (topicId q) (if isCorrect then 1 else 0)
                 in (Inr \<lparr>o_correct = isCorrect,
                          o_correctAnswer = correctAnswer q,
                          o_coinsEarned = (if isCorrect then 10 else 0),
                          o_newMastery = newMasteryOf st2 u (topicId q),
                          o_feedback = feedbackOf q isCorrect\<rparr>, st2)))"

definition clamp :: "int \<Rightarrow> int \<Rightarrow> int \<Rightarrow> int" where
  \<comment> \<open>The specification's \<open>clamp(x, lo, hi)\<close>, written from its words.\<close>
  "clamp x lo hi = (if x < lo then lo else if hi < x then hi else x)"

section \<open>Client: the view state of GameEngine\<close>

datatype GamePhase = Question | Game | Result | Loading

record answer_result =
  r_correct :: bool
  r_message :: string
  r_coinsEarned :: int

record view_state =
  phase :: GamePhase
  selectedAnswer :: "string option"
  result :: "answer_result option"
  startTime :: int
  score :: int
  streak :: int
  questionsAnswered :: nat
  gameProgress :: int

text \<open>What a handler asks of its collaborators: a call of the \<^verbatim>\<open>submitAnswer\<close> mutation
  with its payload, a \<^verbatim>\<open>refetch()\<close> of the question, \<^verbatim>\<open>clearInterval\<close>, the confetti.\<close>

datatype effect = SubmitAnswer submitBody | Refetch | ClearInterval | Confetti

definition GAME_DURATION :: int where
  "GAME_DURATION = 5000"

definition tickInterval :: int where
  \<comment> \<open>\<^verbatim>\<open>GAME_DURATION / 50\<close>, the period of the interval in milliseconds\<close>
  "tickInterval = GAME_DURATION div 50"

definition initialState :: "int \<Rightarrow> view_state" where
  \<comment> \<open>the \<^verbatim>\<open>useState\<close> defaults; \<open>now\<close> is \<^verbatim>\<open>Date.now()\<close> at mount\<close>
  "initialState now =
     \<lparr>phase = Question, selectedAnswer = None, result = None, startTime = now,
      score = 0, streak = 0, questionsAnswered = 0, gameProgress = 0\<rparr>"

definition questionEffect :: "int \<Rightarrow> view_state \<Rightarrow> view_state" where
  \<comment> \<open>the effect on \<^verbatim>\<open>[question, phase]\<close>, with a question loaded\<close>
  "questionEffect now s =
     (if phase s = Question
      then s\<lparr>startTime := now, selectedAnswer := None, result := None\<rparr>
      else s)"

definition tick :: "view_state \<Rightarrow> view_state \<times> effect list" where
  \<comment> \<open>one run of the interval callback; the interval exists only while the phase is \<^verbatim>\<open>game\<close>\<close>
  "tick s =
     (if phase s = Game then
        (if gameProgress s \<ge> 100
         then (s\<lparr>phase := Question, gameProgress := 0\<rparr>, [ClearInterval, Refetch])
         else (s\<lparr>gameProgress := gameProgress s + 2\<rparr>, []))
      else (s, []))"

fun ticks :: "nat \<Rightarrow> view_state \<Rightarrow> view_state \<times> effect list" where
  "ticks 0 s = (s, [])"
| "ticks (Suc n) s =
     (let (s1, es1) = ticks n s; (s2, es2) = tick s1 in (s2, es1 @ es2))"

definition roundJS :: "real \<Rightarrow> int" where
  \<comment> \<open>\<^verbatim>\<open>Math.round\<close>: to the nearest integer, a half upwards\<close>
  "roundJS x = \<lfloor>x + 1 / 2\<rfloor>"

definition handleAnswer :: "question \<Rightarrow> int \<Rightarrow> view_state \<Rightarrow> string \<Rightarrow> view_state \<times> effect list" where
  \<comment> \<open>\<open>q\<close> is the question on screen, \<open>now\<close> is \<^verbatim>\<open>Date.now()\<close> at the click\<close>
  "handleAnswer q now s ans =
     (if result s \<noteq> None \<or> phase s \<noteq> Question then (s, [])
      else
        let tt = roundJS (real_of_int (now - startTime s) / 1000)
        in (s\<lparr>selectedAnswer := Some ans\<rparr>,
            [SubmitAnswer \<lparr>questionId = qid q, answer = ans, timeTaken = tt\<rparr>]))"

definition onSuccess :: "int \<Rightarrow> outcome \<Rightarrow> view_state \<Rightarrow> view_state \<times> effect list" where
  \<comment> \<open>the \<^verbatim>\<open>onSuccess\<close> callback of a submission; \<open>streak0\<close> is the streak its closure holds\<close>
  "onSuccess streak0 d s =
     (let s1 = s\<lparr>result := Some \<lparr>r_correct = o_correct d,
                                   r_message = (if o_correct d then ''Correct!'' else ''Not quite...''),
                                   r_coinsEarned = o_coinsEarned d\<rparr>\<rparr>;
          s2 = (if o_correct d
                then s1\<lparr>score := score s1 + 10 + streak0 * 2, streak := streak s1 + 1\<rparr>
                else s1\<lparr>streak := 0\<rparr>)
      in (s2\<lparr>questionsAnswered := questionsAnswered s2 + 1, phase := Result\<rparr>,
          (if o_correct d then [Confetti] else [])))"

definition handleContinue :: "view_state \<Rightarrow> view_state \<times> effect list" where
  "handleContinue s =
     (if questionsAnswered s mod 3 = 0 \<and> questionsAnswered s > 0
      then (s\<lparr>phase := Game, gameProgress := 0, result := None\<rparr>, [])
      else (s\<lparr>phase := Loading, result := None\<rparr>, [Refetch]))"

definition refetchThen :: "view_state \<Rightarrow> view_state" where
  \<comment> \<open>the \<^verbatim>\<open>then\<close> callback of the refetch started by \<^verbatim>\<open>handleContinue\<close>\<close>
  "refetchThen s = s\<lparr>phase := Question\<rparr>"

text \<open>The controls the component renders: the option buttons in the phases
  \<^verbatim>\<open>question\<close> and \<^verbatim>\<open>result\<close>, disabled once a result is present; the continue button in
  the phase \<^verbatim>\<open>result\<close> with a result present.\<close>

datatype userInput = ClickOption string | ClickContinue

definition optionButtonsEnabled :: "view_state \<Rightarrow> bool" where
  "optionButtonsEnabled s = ((phase s = Question \<or> phase s = Result) \<and> result s = None)"

definition continueButtonShown :: "view_state \<Rightarrow> bool" where
  "continueButtonShown s = (phase s = Result \<and> result s \<noteq> None)"

fun userStep :: "question \<Rightarrow> int \<Rightarrow> view_state \<Rightarrow> userInput \<Rightarrow> view_state \<times> effect list" where
  "userStep q now s (ClickOption ans) =
     (if optionButtonsEnabled s then handleAnswer q now s ans else (s, []))"
| "userStep q now s ClickContinue =
     (if continueButtonShown s then handleContinue s else (s, []))"

text \<open>A session: each turn shows a question, takes a click on an option, receives the
  server's outcome and takes a click on the continue button. \<open>settle\<close> is what follows a
  continue until the next question is on screen: the refetch settling, or the
  interstitial running to its end.\<close>

record turn =
  t_shown :: int
  t_clicked :: int
  t_answer :: string
  t_data :: outcome

definition settle :: "view_state \<Rightarrow> view_state" where
  "settle s =
     (if phase s = Loading then refetchThen s
      else if phase s = Game then fst (ticks 51 s)
      else s)"

definition answered :: "question \<Rightarrow> view_state \<Rightarrow> turn \<Rightarrow> view_state" where
  \<comment> \<open>the state showing the result of the turn, before the continue\<close>
  "answered q s t =
     (let s0 = questionEffect (t_shown t) (settle s);
          s1 = fst (userStep q (t_clicked t) s0 (ClickOption (t_answer t)))
      in fst (onSuccess (streak s0) (t_data t) s1))"

fun afterContinue :: "question \<Rightarrow> view_state \<Rightarrow> turn list \<Rightarrow> view_state" where
  \<comment> \<open>the state right after the continue of the last turn\<close>
  "afterContinue q s [] = s"
| "afterContinue q s (t # ts) =
     afterContinue q (fst (userStep q (t_clicked t) (answered q s t) ClickContinue)) ts"

section \<open>Client: the options of a question\<close>



section \<open>Sample data\<close>

text \<open>The two questions that \<^verbatim>\<open>seedDatabase\<close> creates for the topic Electricity, a store
  holding them, and the session of a logged-in student.\<close>

definition q_copper :: question where
  "q_copper =
     \<lparr>qid = 1, topicId = 1,
      content = ''Which of these is a good conductor of electricity?'',
      correctAnswer = ''Copper'', distractors = [''Wood'', ''Plastic'', ''Rubber''],
      difficulty = 2,
      explanation = Some ''Metals like copper allow electricity to flow freely.''\<rparr>"

definition q_switch :: question where
  "q_switch =
     \<lparr>qid = 2, topicId = 1,
      content = ''What component breaks a circuit to stop the flow?'',
      correctAnswer = ''Switch'', distractors = [''Battery'', ''Bulb'', ''Wire''],
      difficulty = 3,
      explanation = Some ''A switch opens the circuit gap.''\<rparr>"

definition seedStore :: store where
  "seedStore = \<lparr>questions = [q_copper, q_switch], mastery = Map.empty, events = []\<rparr>"

definition student1 :: session where
  "student1 = \<lparr>userId = Some 2\<rparr>"

definition anonymous :: session where
  \<comment> \<open>a request without a session user\<close>
  "anonymous = \<lparr>userId = None\<rparr>"

definition q_blank :: question where
  \<comment> \<open>the first question, authored with an empty explanation\<close>
  "q_blank = q_copper\<lparr>explanation := Some []\<rparr>"

definition blankStore :: store where
  "blankStore = \<lparr>questions = [q_blank], mastery = Map.empty, events = []\<rparr>"

section \<open>The outcome of an answer, in the specification's words\<close>

definition spec_feedback :: "question \<Rightarrow> bool \<Rightarrow> string" where
  \<comment> \<open>a fixed congratulation when correct; when incorrect the explanation, or a fallback
      when the explanation is absent\<close>
  "spec_feedback q isCorrect =
     (if isCorrect then ''Great job!''
      else (case explanation q of None \<Rightarrow> ''Keep trying!'' | Some e \<Rightarrow> e))"

definition spec_outcome :: "question \<Rightarrow> string \<Rightarrow> outcome" where
  "spec_outcome q ans =
     \<lparr>o_correct = (ans = correctAnswer q),
      o_correctAnswer = correctAnswer q,
      o_coinsEarned = (if ans = correctAnswer q then 10 else 0),
      o_newMastery = (if ans = correctAnswer q then 1 else 0),
      o_feedback = spec_feedback q (ans = correctAnswer q)\<rparr>"

definition sampleOutcome :: outcome where
  \<comment> \<open>the server's outcome for the correct answer to the first question\<close>
  "sampleOutcome =
     \<lparr>o_correct = True, o_correctAnswer = ''Copper'', o_coinsEarned = 10,
      o_newMastery = 1, o_feedback = ''Great job!''\<rparr>"

definition sampleTurn :: turn where
  "sampleTurn =
     \<lparr>t_shown = 1000, t_clicked = 4400, t_answer = ''Copper'', t_data = sampleOutcome\<rparr>"

definition gameStart :: view_state where
  \<comment> \<open>the view state right after the continue of the third of three such turns\<close>
  "gameStart =
     \<lparr>phase = Game, selectedAnswer = Some ''Copper'', result = None,
      startTime = 1000, score = 36, streak = 3, questionsAnswered = 3, gameProgress = 0\<rparr>"

definition shownState :: view_state where
  \<comment> \<open>the first question on screen, shown at time 1000\<close>
  "shownState = questionEffect 1000 (initialState 0)"


section \<open>An invariant of the view state\<close>

text \<open>The states between two turns: no result on screen, and either waiting for the
  next question or at the start of the interstitial.\<close>

definition between :: "view_state \<Rightarrow> bool" where
  "between s = (result s = None \<and>
     (phase s = Question \<or> phase s = Loading \<or> (phase s = Game \<and> gameProgress s = 0)))"

lemmas sample_defs = q_copper_def q_switch_def seedStore_def student1_def

section \<open>Target difficulty\<close>

lemma targetDifficulty_range: "1 \<le> targetDifficulty m \<and> targetDifficulty m \<le> 5"
  by (simp add: targetDifficulty_def)

lemma targetDifficulty_mono: "m \<le> m' \<Longrightarrow> targetDifficulty m \<le> targetDifficulty m'"
proof -
  assume "m \<le> m'"
  then have "\<lfloor>m * 5\<rfloor> \<le> \<lfloor>m' * 5\<rfloor>" by (intro floor_mono) simp
  then show ?thesis by (simp add: targetDifficulty_def)
qed

lemma floor_score_bounds: "0 \<le> (m::real) \<Longrightarrow> m \<le> 1 \<Longrightarrow> 0 \<le> \<lfloor>m * 5\<rfloor> \<and> \<lfloor>m * 5\<rfloor> \<le> 5"
proof -
  assume a: "0 \<le> m" "m \<le> 1"
  then have "(0::real) \<le> m * 5" by simp
  then have lo: "0 \<le> \<lfloor>m * 5\<rfloor>" by simp
  from a have "m * 5 \<le> 5" by simp
  then have "\<lfloor>m * 5\<rfloor> \<le> \<lfloor>5::real\<rfloor>" by (rule floor_mono)
  then have "\<lfloor>m * 5\<rfloor> \<le> 5" by simp
  with lo show ?thesis by simp
qed

lemma targetDifficulty_clamp:
  "0 \<le> m \<Longrightarrow> m \<le> 1 \<Longrightarrow> targetDifficulty m = clamp (\<lfloor>m * 5\<rfloor> + 1) 1 5"
  using floor_score_bounds [of m] by (simp add: targetDifficulty_def clamp_def)

lemma currentScore_absent: "getMastery st u t = None \<Longrightarrow> currentScore st u t = 0"
  by (simp add: currentScore_def)

lemma currentScore_present: "getMastery st u t = Some m \<Longrightarrow> currentScore st u t = m"
  by (simp add: currentScore_def)

text \<open>
  Claim C1. For a mastery score \<open>m\<close> in [0,1] the target difficulty of the question
  selector is \<open>clamp(floor(m*5)+1, 1, 5)\<close>; it lies in [1,5], is monotonic
  non-decreasing in \<open>m\<close>, takes the values 1, 5 and 5 at 0, 0.99 and 1.0, and is computed
  from the stored score, or from 0 when (student, topic) has no mastery record.
\<close>

theorem targetDifficulty_spec:
  "(0 \<le> m \<and> m \<le> 1 \<longrightarrow>
      targetDifficulty m = clamp (\<lfloor>m * 5\<rfloor> + 1) 1 5
      \<and> 1 \<le> targetDifficulty m \<and> targetDifficulty m \<le> 5)
   \<and> (m \<le> m' \<longrightarrow> targetDifficulty m \<le> targetDifficulty m')
   \<and> targetDifficulty 0 = 1 \<and> targetDifficulty (99 / 100) = 5 \<and> targetDifficulty 1 = 5
   \<and> (getMastery st u t = Some m \<longrightarrow> targetDifficulty (currentScore st u t) = targetDifficulty m)
   \<and> (getMastery st u t = None \<longrightarrow>
        currentScore st u t = 0 \<and> targetDifficulty (currentScore st u t) = 1)"
proof (intro conjI impI)
  show "targetDifficulty 0 = 1" "targetDifficulty (99 / 100) = 5" "targetDifficulty 1 = 5"
    by (simp_all add: targetDifficulty_def)
next
  assume "0 \<le> m \<and> m \<le> 1"
  then show "targetDifficulty m = clamp (\<lfloor>m * 5\<rfloor> + 1) 1 5"
    by (simp add: targetDifficulty_clamp)
next
  show "1 \<le> targetDifficulty m" "targetDifficulty m \<le> 5"
    using targetDifficulty_range [of m] by simp_all
next
  assume "m \<le> m'"
  then show "targetDifficulty m \<le> targetDifficulty m'" by (rule targetDifficulty_mono)
next
  assume "getMastery st u t = Some m"
  then show "targetDifficulty (currentScore st u t) = targetDifficulty m"
    by (simp add: currentScore_present)
next
  assume a: "getMastery st u t = None"
  then show "currentScore st u t = 0" by (rule currentScore_absent)
  from a show "targetDifficulty (currentScore st u t) = 1"
    by (simp add: currentScore_absent targetDifficulty_def)
qed

theorem targetDifficulty_spec_witness:
  "targetDifficulty (1 / 2) = 3 \<and> clamp (\<lfloor>(1 / 2 :: real) * 5\<rfloor> + 1) 1 5 = 3
   \<and> targetDifficulty (1 / 2) \<le> targetDifficulty 1
   \<and> getMastery seedStore 2 1 = None \<and> currentScore seedStore 2 1 = 0
   \<and> targetDifficulty (currentScore seedStore 2 1) = 1"
  using targetDifficulty_spec [of "1 / 2" 1 seedStore 2 1]
  by (simp add: clamp_def getMastery_def seedStore_def)

section \<open>Selecting the next question\<close>

lemma random_index:
  assumes "0 \<le> rnd" "rnd < 1" "0 < n"
  shows "0 \<le> \<lfloor>rnd * real n\<rfloor> \<and> \<lfloor>rnd * real n\<rfloor> < int n"
proof -
  from assms have "0 \<le> rnd * real n" by simp
  then have lo: "0 \<le> \<lfloor>rnd * real n\<rfloor>" by simp
  from assms have "rnd * real n < 1 * real n" by (intro mult_strict_right_mono) simp_all
  then have "rnd * real n < of_int (int n)" by simp
  then have "\<lfloor>rnd * real n\<rfloor> < int n" by (simp only: floor_less_iff)
  with lo show ?thesis by simp
qed

lemma at_index_random:
  assumes "0 \<le> rnd" "rnd < 1" "xs \<noteq> []"
  shows "\<exists>x. at_index xs \<lfloor>rnd * real (length xs)\<rfloor> = Some x \<and> x \<in> set xs"
proof -
  from assms have "0 < length xs" by simp
  from random_index [OF assms(1,2) this]
  have r: "0 \<le> \<lfloor>rnd * real (length xs)\<rfloor>" "\<lfloor>rnd * real (length xs)\<rfloor> < int (length xs)"
    by simp_all
  then have "nat \<lfloor>rnd * real (length xs)\<rfloor> < length xs" by linarith
  then have "xs ! nat \<lfloor>rnd * real (length xs)\<rfloor> \<in> set xs" by (rule nth_mem)
  with r show ?thesis by (simp add: at_index_def)
qed

lemma candidateQuestions_nonempty: "qs \<noteq> [] \<Longrightarrow> candidateQuestions qs d \<noteq> []"
  by (simp add: candidateQuestions_def Let_def)

lemma getNextQuestion_authenticated:
  "userId sess = Some u \<Longrightarrow> u \<noteq> 0 \<Longrightarrow>
   getNextQuestion sess tid rnd st =
     (if getQuestionsByTopic st tid = [] then Inl NotFound
      else Inr (at_index (candidateQuestions (getQuestionsByTopic st tid)
                            (targetDifficulty (currentScore st u tid)))
                  \<lfloor>rnd * real (length (candidateQuestions (getQuestionsByTopic st tid)
                            (targetDifficulty (currentScore st u tid))))\<rfloor>))"
  by (simp add: getNextQuestion_def Let_def)

text \<open>
  Claim C2. For a logged-in student the selector fails with NotFound exactly when the
  topic has no question; otherwise it returns a question of the requested topic, taken
  from the topic's questions of the target difficulty, or from all the topic's questions
  when there is none of that difficulty.
\<close>

theorem getNextQuestion_selects:
  assumes "userId sess = Some u" and "u \<noteq> 0" and "0 \<le> rnd" and "rnd < 1"
  shows "(getNextQuestion sess tid rnd st = Inl NotFound \<longleftrightarrow> getQuestionsByTopic st tid = [])
    \<and> getNextQuestion sess tid rnd st \<noteq> Inl Unauthenticated
    \<and> (getQuestionsByTopic st tid \<noteq> [] \<longrightarrow>
         (\<exists>q. getNextQuestion sess tid rnd st = Inr (Some q)
            \<and> topicId q = tid \<and> q \<in> set (questions st)
            \<and> (if filter (\<lambda>q'. difficulty q' = targetDifficulty (currentScore st u tid))
                     (getQuestionsByTopic st tid) = []
                then q \<in> set (getQuestionsByTopic st tid)
                else q \<in> set (filter (\<lambda>q'. difficulty q' = targetDifficulty (currentScore st u tid))
                     (getQuestionsByTopic st tid)))))"
proof (cases "getQuestionsByTopic st tid = []")
  case True
  then show ?thesis using assms(1,2) by (simp add: getNextQuestion_authenticated)
next
  case False
  let ?all = "getQuestionsByTopic st tid"
  let ?d = "targetDifficulty (currentScore st u tid)"
  let ?cs = "candidateQuestions ?all ?d"
  from False have "?cs \<noteq> []" by (rule candidateQuestions_nonempty)
  from at_index_random [OF assms(3,4) this]
  obtain q where q: "at_index ?cs \<lfloor>rnd * real (length ?cs)\<rfloor> = Some q" "q \<in> set ?cs"
    by blast
  have res: "getNextQuestion sess tid rnd st = Inr (Some q)"
    using assms(1,2) False q(1) by (simp add: getNextQuestion_authenticated)
  have sub: "set ?cs \<subseteq> set ?all" by (auto simp: candidateQuestions_def Let_def)
  with q(2) have qa: "q \<in> set ?all" by blast
  then have top: "topicId q = tid" "q \<in> set (questions st)"
    by (simp_all add: getQuestionsByTopic_def)
  have sel: "if filter (\<lambda>q'. difficulty q' = ?d) ?all = [] then q \<in> set ?all
             else q \<in> set (filter (\<lambda>q'. difficulty q' = ?d) ?all)"
    using q(2) by (simp add: candidateQuestions_def Let_def split: if_splits)
  show ?thesis using res False top sel by simp
qed

theorem getNextQuestion_selects_witness:
  "getNextQuestion student1 1 (1 / 2) seedStore = Inr (Some q_switch)
   \<and> getNextQuestion student1 3 (1 / 2) seedStore = Inl NotFound"
  using getNextQuestion_selects [of student1 2 "1 / 2" 1 seedStore]
    getNextQuestion_selects [of student1 2 "1 / 2" 3 seedStore]
  by (simp add: sample_defs getNextQuestion_def getQuestionsByTopic_def currentScore_def
      getMastery_def targetDifficulty_def candidateQuestions_def at_index_def)


section \<open>Recording an answer\<close>

lemma submitAnswer_success:
  assumes "userId sess = Some u" and "u \<noteq> 0" and "getQuestion st (questionId body) = Some q"
  shows "submitAnswer sess body st =
    (Inr \<lparr>o_correct = (correctAnswer q = answer body),
          o_correctAnswer = correctAnswer q,
          o_coinsEarned = (if correctAnswer q = answer body then 10 else 0),
          o_newMastery = (if correctAnswer q = answer body then 1 else 0),
          o_feedback = feedbackOf q (correctAnswer q = answer body)\<rparr>,
     st\<lparr>events := events st @
           [\<lparr>ev_studentId = u, ev_questionId = questionId body,
             ev_correct = (correctAnswer q = answer body), ev_timeTaken = timeTaken body\<rparr>],
        mastery := (mastery st)((u, topicId q) \<mapsto> (if correctAnswer q = answer body then 1 else 0))\<rparr>)"
  using assms
  by (simp add: submitAnswer_def Let_def logLearningEvent_def updateMastery_def
      newMasteryOf_def getMastery_def)

lemma submitAnswer_unauthenticated:
  "\<not> authenticated sess \<Longrightarrow> submitAnswer sess body st = (Inl Unauthenticated, st)"
  by (simp add: submitAnswer_def authenticated_def split: option.splits)

lemma submitAnswer_notfound:
  "authenticated sess \<Longrightarrow> getQuestion st (questionId body) = None \<Longrightarrow>
   submitAnswer sess body st = (Inl NotFound, st)"
  by (simp add: submitAnswer_def authenticated_def split: option.splits)

lemma submitAnswer_cases:
  obtains "\<not> authenticated sess" "submitAnswer sess body st = (Inl Unauthenticated, st)"
  | "authenticated sess" "getQuestion st (questionId body) = None"
      "submitAnswer sess body st = (Inl NotFound, st)"
  | u q where "userId sess = Some u" "u \<noteq> 0" "getQuestion st (questionId body) = Some q"
proof (cases "authenticated sess")
  case False
  then show ?thesis using that(1) submitAnswer_unauthenticated by blast
next
  case True
  then obtain u where u: "userId sess = Some u" "u \<noteq> 0"
    by (auto simp: authenticated_def split: option.splits)
  show ?thesis
  proof (cases "getQuestion st (questionId body)")
    case None
    then show ?thesis using True that(2) submitAnswer_notfound by blast
  next
    case (Some q)
    then show ?thesis using u that(3) by blast
  qed
qed

text \<open>
  Claim C3. After an answer of a logged-in student to an existing question is recorded,
  the mastery score of (student, topic of the question) is exactly 1 when the answer is
  correct and exactly 0 when it is not, whatever it was before; and if every stored
  score lies in [0,1] before a call, so it does after it.
\<close>

theorem submitAnswer_mastery:
  "(userId sess = Some u \<and> u \<noteq> 0 \<and> getQuestion st (questionId body) = Some q \<longrightarrow>
      getMastery (snd (submitAnswer sess body st)) u (topicId q)
        = Some (if answer body = correctAnswer q then 1 else 0))
   \<and> ((\<forall>k r. mastery st k = Some r \<longrightarrow> 0 \<le> r \<and> r \<le> 1) \<longrightarrow>
        (\<forall>k r. mastery (snd (submitAnswer sess body st)) k = Some r \<longrightarrow> 0 \<le> r \<and> r \<le> 1))"
proof (intro conjI impI)
  assume "userId sess = Some u \<and> u \<noteq> 0 \<and> getQuestion st (questionId body) = Some q"
  then show "getMastery (snd (submitAnswer sess body st)) u (topicId q)
        = Some (if answer body = correctAnswer q then 1 else 0)"
    by (auto simp: submitAnswer_success getMastery_def)
next
  assume inv: "\<forall>k r. mastery st k = Some r \<longrightarrow> 0 \<le> r \<and> r \<le> 1"
  show "\<forall>k r. mastery (snd (submitAnswer sess body st)) k = Some r \<longrightarrow> 0 \<le> r \<and> r \<le> 1"
  proof (cases rule: submitAnswer_cases [of sess body st])
    case 1
    with inv show ?thesis by simp
  next
    case 2
    with inv show ?thesis by simp
  next
    case (3 u' q')
    with inv show ?thesis by (auto simp: submitAnswer_success split: if_splits)
  qed
qed

theorem submitAnswer_mastery_witness:
  "getMastery (snd (submitAnswer student1 \<lparr>questionId = 1, answer = ''Copper'', timeTaken = 3\<rparr> seedStore)) 2 1 = Some 1
   \<and> getMastery (snd (submitAnswer student1 \<lparr>questionId = 1, answer = ''Wood'', timeTaken = 3\<rparr>
        (snd (submitAnswer student1 \<lparr>questionId = 1, answer = ''Copper'', timeTaken = 3\<rparr> seedStore)))) 2 1 = Some 0
   \<and> 0 \<le> the (getMastery (snd (submitAnswer student1
        \<lparr>questionId = 1, answer = ''Copper'', timeTaken = 3\<rparr> seedStore)) 2 1)
   \<and> the (getMastery (snd (submitAnswer student1
        \<lparr>questionId = 1, answer = ''Copper'', timeTaken = 3\<rparr> seedStore)) 2 1) \<le> 1"
proof -
  let ?b1 = "\<lparr>questionId = 1, answer = ''Copper'', timeTaken = 3\<rparr>"
  let ?b2 = "\<lparr>questionId = 1, answer = ''Wood'', timeTaken = 3\<rparr>"
  let ?st1 = "snd (submitAnswer student1 ?b1 seedStore)"
  have q1: "getQuestion seedStore (questionId ?b1) = Some q_copper"
    by (simp add: getQuestion_def sample_defs)
  have q2: "getQuestion ?st1 (questionId ?b2) = Some q_copper"
    by (simp add: getQuestion_def sample_defs submitAnswer_def logLearningEvent_def updateMastery_def Let_def)
  have u: "userId student1 = Some 2" "(2::nat) \<noteq> 0" by (simp_all add: student1_def)
  have t: "topicId q_copper = 1" "correctAnswer q_copper = ''Copper''" by (simp_all add: q_copper_def)
  have inv: "\<forall>k r. mastery seedStore k = Some r \<longrightarrow> 0 \<le> r \<and> r \<le> 1" by (simp add: seedStore_def)
  note T1 = submitAnswer_mastery [of student1 2 seedStore ?b1 q_copper]
  note T2 = submitAnswer_mastery [of student1 2 ?st1 ?b2 q_copper]
  have a1: "getMastery ?st1 2 (topicId q_copper)
      = Some (if answer ?b1 = correctAnswer q_copper then 1 else 0)"
    using T1 u q1 by blast
  have i1: "\<forall>k r. mastery ?st1 k = Some r \<longrightarrow> 0 \<le> r \<and> r \<le> 1"
    using T1 inv by blast
  have a2: "getMastery (snd (submitAnswer student1 ?b2 ?st1)) 2 (topicId q_copper)
      = Some (if answer ?b2 = correctAnswer q_copper then 1 else 0)"
    using T2 u q2 by blast
  have c1: "getMastery ?st1 2 1 = Some 1" using a1 by (simp add: t)
  have c2: "getMastery (snd (submitAnswer student1 ?b2 ?st1)) 2 1 = Some 0"
    using a2 by (simp add: t)
  from c1 have m: "mastery ?st1 (2, 1) = Some 1" by (simp only: getMastery_def)
  with i1 have "(0::real) \<le> 1 \<and> (1::real) \<le> 1" by blast
  then have c3: "0 \<le> the (getMastery ?st1 2 1)" "the (getMastery ?st1 2 1) \<le> 1"
    by (simp_all only: c1 option.sel)
  from c1 c2 c3 show ?thesis by blast
qed


text \<open>
  Claim C4, as stated, fails for a question whose explanation is present but empty: the
  feedback on a wrong answer is then the fallback string, not the explanation.
\<close>

theorem submitAnswer_blank_explanation_counterexample:
  "fst (submitAnswer student1 \<lparr>questionId = 1, answer = ''Wood'', timeTaken = 3\<rparr> blankStore)
     \<noteq> Inr (spec_outcome q_blank ''Wood'')"
proof -
  let ?b = "\<lparr>questionId = 1, answer = ''Wood'', timeTaken = 3\<rparr>"
  have u: "userId student1 = Some 2" "(2::nat) \<noteq> 0" by (simp_all add: student1_def)
  have q: "getQuestion blankStore (questionId ?b) = Some q_blank"
    by (simp add: getQuestion_def blankStore_def q_blank_def q_copper_def)
  have fb: "feedbackOf q_blank (correctAnswer q_blank = answer ?b) = ''Keep trying!''"
    by (simp add: feedbackOf_def q_blank_def q_copper_def)
  have sp: "o_feedback (spec_outcome q_blank ''Wood'') = []"
    by (simp add: spec_outcome_def spec_feedback_def q_blank_def q_copper_def)
  define out where "out =
     \<lparr>o_correct = (correctAnswer q_blank = answer ?b),
      o_correctAnswer = correctAnswer q_blank,
      o_coinsEarned = (if correctAnswer q_blank = answer ?b then 10 else 0),
      o_newMastery = (if correctAnswer q_blank = answer ?b then 1 else 0),
      o_feedback = feedbackOf q_blank (correctAnswer q_blank = answer ?b)\<rparr>"
  have o: "fst (submitAnswer student1 ?b blankStore) = Inr out"
    unfolding out_def by (simp only: submitAnswer_success [OF u q] fst_conv)
  have "o_feedback out = feedbackOf q_blank (correctAnswer q_blank = answer ?b)"
    unfolding out_def by (simp only: outcome.simps)
  then have f: "o_feedback out = ''Keep trying!''" using fb by (rule trans)
  from f sp have "out \<noteq> spec_outcome q_blank ''Wood''" by auto
  with o show ?thesis by simp
qed

text \<open>
  Claim C4, amended. For an answer of a logged-in student to an existing question, the
  answer is correct exactly when it equals the question's correct answer as a string;
  the outcome holds that flag, the correct answer, 10 coins when correct and 0
  otherwise, the updated mastery score, and as feedback the string "Great job!" when
  correct and, when incorrect, the question's explanation, or "Keep trying!" when the
  explanation is absent or the empty string. Unless the explanation is the empty
  string, this is the outcome of the specification.
\<close>

theorem submitAnswer_outcome:
  assumes "userId sess = Some u" and "u \<noteq> 0"
    and "getQuestion st (questionId body) = Some q"
  shows "\<exists>out. fst (submitAnswer sess body st) = Inr out
    \<and> (o_correct out \<longleftrightarrow> answer body = correctAnswer q)
    \<and> o_correctAnswer out = correctAnswer q
    \<and> o_coinsEarned out = (if o_correct out then 10 else 0)
    \<and> getMastery (snd (submitAnswer sess body st)) u (topicId q) = Some (o_newMastery out)
    \<and> o_newMastery out = (if o_correct out then 1 else 0)
    \<and> o_feedback out =
         (if o_correct out then ''Great job!''
          else (case explanation q of
                  None \<Rightarrow> ''Keep trying!''
                | Some e \<Rightarrow> (if e = [] then ''Keep trying!'' else e)))
    \<and> (explanation q \<noteq> Some [] \<longrightarrow> out = spec_outcome q (answer body))"
proof -
  have fb: "explanation q \<noteq> Some [] \<Longrightarrow> feedbackOf q c = spec_feedback q c" for c
    by (simp add: feedbackOf_def spec_feedback_def split: option.splits)
  show ?thesis
    using fb [of "correctAnswer q = answer body"]
    by (simp add: submitAnswer_success [OF assms] getMastery_def feedbackOf_def
        spec_outcome_def eq_commute [of "answer body"])
qed

theorem submitAnswer_outcome_witness:
  "fst (submitAnswer student1 \<lparr>questionId = 1, answer = ''copper'', timeTaken = 3\<rparr> seedStore)
     = Inr \<lparr>o_correct = False, o_correctAnswer = ''Copper'', o_coinsEarned = 0,
             o_newMastery = 0,
             o_feedback = ''Metals like copper allow electricity to flow freely.''\<rparr>"
proof -
  let ?b = "\<lparr>questionId = 1, answer = ''copper'', timeTaken = 3\<rparr>"
  have u: "userId student1 = Some 2" "(2::nat) \<noteq> 0" by (simp_all add: student1_def)
  have q: "getQuestion seedStore (questionId ?b) = Some q_copper"
    by (simp add: getQuestion_def sample_defs)
  from submitAnswer_outcome [OF u q]
  obtain out where o: "fst (submitAnswer student1 ?b seedStore) = Inr out"
    and e: "explanation q_copper \<noteq> Some [] \<longrightarrow> out = spec_outcome q_copper (answer ?b)"
    by blast
  have "explanation q_copper \<noteq> Some []" by (simp add: q_copper_def)
  with e have "out = spec_outcome q_copper (answer ?b)" by blast
  then have "out = \<lparr>o_correct = False, o_correctAnswer = ''Copper'', o_coinsEarned = 0,
             o_newMastery = 0,
             o_feedback = ''Metals like copper allow electricity to flow freely.''\<rparr>"
    by (simp add: spec_outcome_def spec_feedback_def q_copper_def)
  with o show ?thesis by simp
qed

text \<open>
  Claim C5. A successful call appends exactly one event to the log, holding the student
  id, the question id, the correctness and the time taken, and upserts the mastery score
  of (student, topic); nothing else of the store changes. A second, equal call appends
  a second, equal event.
\<close>

theorem submitAnswer_effects:
  assumes "userId sess = Some u" and "u \<noteq> 0"
    and "getQuestion st (questionId body) = Some q"
  shows "snd (submitAnswer sess body st) =
      st\<lparr>events := events st @
            [\<lparr>ev_studentId = u, ev_questionId = questionId body,
              ev_correct = (correctAnswer q = answer body), ev_timeTaken = timeTaken body\<rparr>],
         mastery := (mastery st)((u, topicId q) \<mapsto> (if correctAnswer q = answer body then 1 else 0))\<rparr>
    \<and> questions (snd (submitAnswer sess body st)) = questions st
    \<and> length (events (snd (submitAnswer sess body st))) = length (events st) + 1
    \<and> events (snd (submitAnswer sess body (snd (submitAnswer sess body st)))) =
        events st @
          [\<lparr>ev_studentId = u, ev_questionId = questionId body,
            ev_correct = (correctAnswer q = answer body), ev_timeTaken = timeTaken body\<rparr>,
           \<lparr>ev_studentId = u, ev_questionId = questionId body,
            ev_correct = (correctAnswer q = answer body), ev_timeTaken = timeTaken body\<rparr>]"
proof -
  let ?st1 = "snd (submitAnswer sess body st)"
  have one: "?st1 = st\<lparr>events := events st @
            [\<lparr>ev_studentId = u, ev_questionId = questionId body,
              ev_correct = (correctAnswer q = answer body), ev_timeTaken = timeTaken body\<rparr>],
         mastery := (mastery st)((u, topicId q) \<mapsto> (if correctAnswer q = answer body then 1 else 0))\<rparr>"
    by (simp add: submitAnswer_success [OF assms])
  then have qs: "questions ?st1 = questions st" by simp
  then have "getQuestion ?st1 (questionId body) = Some q"
    using assms(3) by (simp add: getQuestion_def)
  from submitAnswer_success [OF assms(1,2) this]
  have two: "events (snd (submitAnswer sess body ?st1)) = events ?st1 @
            [\<lparr>ev_studentId = u, ev_questionId = questionId body,
              ev_correct = (correctAnswer q = answer body), ev_timeTaken = timeTaken body\<rparr>]"
    by simp
  have ev1: "events ?st1 = events st @
            [\<lparr>ev_studentId = u, ev_questionId = questionId body,
              ev_correct = (correctAnswer q = answer body), ev_timeTaken = timeTaken body\<rparr>]"
    by (simp add: one)
  show ?thesis
  proof (intro conjI)
    show "?st1 = st\<lparr>events := events st @
            [\<lparr>ev_studentId = u, ev_questionId = questionId body,
              ev_correct = (correctAnswer q = answer body), ev_timeTaken = timeTaken body\<rparr>],
         mastery := (mastery st)((u, topicId q) \<mapsto> (if correctAnswer q = answer body then 1 else 0))\<rparr>"
      by (rule one)
    show "questions ?st1 = questions st" by (rule qs)
    show "length (events ?st1) = length (events st) + 1" by (simp add: ev1)
    show "events (snd (submitAnswer sess body ?st1)) = events st @
          [\<lparr>ev_studentId = u, ev_questionId = questionId body,
            ev_correct = (correctAnswer q = answer body), ev_timeTaken = timeTaken body\<rparr>,
           \<lparr>ev_studentId = u, ev_questionId = questionId body,
            ev_correct = (correctAnswer q = answer body), ev_timeTaken = timeTaken body\<rparr>]"
      by (simp add: two ev1)
  qed
qed

theorem submitAnswer_effects_witness:
  "events (snd (submitAnswer student1 \<lparr>questionId = 2, answer = ''Switch'', timeTaken = 4\<rparr>
       (snd (submitAnswer student1 \<lparr>questionId = 2, answer = ''Switch'', timeTaken = 4\<rparr> seedStore))))
     = [\<lparr>ev_studentId = 2, ev_questionId = 2, ev_correct = True, ev_timeTaken = 4\<rparr>,
        \<lparr>ev_studentId = 2, ev_questionId = 2, ev_correct = True, ev_timeTaken = 4\<rparr>]
   \<and> snd (submitAnswer student1 \<lparr>questionId = 2, answer = ''Switch'', timeTaken = 4\<rparr> seedStore)
     = \<lparr>questions = [q_copper, q_switch], mastery = [(2, 1) \<mapsto> 1],
        events = [\<lparr>ev_studentId = 2, ev_questionId = 2, ev_correct = True, ev_timeTaken = 4\<rparr>]\<rparr>"
proof -
  let ?b = "\<lparr>questionId = 2, answer = ''Switch'', timeTaken = 4\<rparr>"
  have u: "userId student1 = Some 2" "(2::nat) \<noteq> 0" by (simp_all add: student1_def)
  have q: "getQuestion seedStore (questionId ?b) = Some q_switch"
    by (simp add: getQuestion_def sample_defs)
  note T = submitAnswer_effects [OF u q]
  have ev: "events seedStore @
          [\<lparr>ev_studentId = 2, ev_questionId = questionId ?b,
            ev_correct = (correctAnswer q_switch = answer ?b), ev_timeTaken = timeTaken ?b\<rparr>,
           \<lparr>ev_studentId = 2, ev_questionId = questionId ?b,
            ev_correct = (correctAnswer q_switch = answer ?b), ev_timeTaken = timeTaken ?b\<rparr>]
     = [\<lparr>ev_studentId = 2, ev_questionId = 2, ev_correct = True, ev_timeTaken = 4\<rparr>,
        \<lparr>ev_studentId = 2, ev_questionId = 2, ev_correct = True, ev_timeTaken = 4\<rparr>]"
    by (simp add: q_switch_def seedStore_def)
  have a: "events (snd (submitAnswer student1 ?b (snd (submitAnswer student1 ?b seedStore))))
     = [\<lparr>ev_studentId = 2, ev_questionId = 2, ev_correct = True, ev_timeTaken = 4\<rparr>,
        \<lparr>ev_studentId = 2, ev_questionId = 2, ev_correct = True, ev_timeTaken = 4\<rparr>]"
    using T [THEN conjunct2, THEN conjunct2, THEN conjunct2] ev by (rule trans)
  have rhs: "seedStore\<lparr>events := events seedStore @
            [\<lparr>ev_studentId = 2, ev_questionId = questionId ?b,
              ev_correct = (correctAnswer q_switch = answer ?b), ev_timeTaken = timeTaken ?b\<rparr>],
         mastery := (mastery seedStore)((2, topicId q_switch) \<mapsto>
            (if correctAnswer q_switch = answer ?b then 1 else 0))\<rparr>
     = \<lparr>questions = [q_copper, q_switch], mastery = [(2, 1) \<mapsto> 1],
        events = [\<lparr>ev_studentId = 2, ev_questionId = 2, ev_correct = True, ev_timeTaken = 4\<rparr>]\<rparr>"
    by (simp add: q_switch_def seedStore_def)
  have b: "snd (submitAnswer student1 ?b seedStore)
     = \<lparr>questions = [q_copper, q_switch], mastery = [(2, 1) \<mapsto> 1],
        events = [\<lparr>ev_studentId = 2, ev_questionId = 2, ev_correct = True, ev_timeTaken = 4\<rparr>]\<rparr>"
    using conjunct1 [OF T] rhs by (rule trans)
  from a b show ?thesis by blast
qed

text \<open>
  Claim C10. Without a session user the call fails with Unauthenticated, and for a
  logged-in student and an unknown question id it fails with NotFound; whenever the call
  fails, the store it leaves is the store it found: no event is appended and no mastery
  score is created or changed.
\<close>

theorem submitAnswer_error_unchanged:
  "(\<not> authenticated sess \<longrightarrow> submitAnswer sess body st = (Inl Unauthenticated, st))
   \<and> (authenticated sess \<and> getQuestion st (questionId body) = None \<longrightarrow>
        submitAnswer sess body st = (Inl NotFound, st))
   \<and> (fst (submitAnswer sess body st) = Inl e \<longrightarrow>
        snd (submitAnswer sess body st) = st
        \<and> events (snd (submitAnswer sess body st)) = events st
        \<and> mastery (snd (submitAnswer sess body st)) = mastery st)"
proof (intro conjI impI)
  assume "\<not> authenticated sess"
  then show "submitAnswer sess body st = (Inl Unauthenticated, st)"
    by (rule submitAnswer_unauthenticated)
next
  assume "authenticated sess \<and> getQuestion st (questionId body) = None"
  then show "submitAnswer sess body st = (Inl NotFound, st)"
    by (simp add: submitAnswer_notfound)
next
  assume err: "fst (submitAnswer sess body st) = Inl e"
  have same: "snd (submitAnswer sess body st) = st"
  proof (cases rule: submitAnswer_cases [of sess body st])
    case 1
    then show ?thesis by simp
  next
    case 2
    then show ?thesis by simp
  next
    case (3 u q)
    with err show ?thesis by (simp add: submitAnswer_success)
  qed
  then show "snd (submitAnswer sess body st) = st"
    "events (snd (submitAnswer sess body st)) = events st"
    "mastery (snd (submitAnswer sess body st)) = mastery st"
    by simp_all
qed

theorem submitAnswer_error_unchanged_witness:
  "submitAnswer anonymous \<lparr>questionId = 1, answer = ''Copper'', timeTaken = 3\<rparr> seedStore
     = (Inl Unauthenticated, seedStore)
   \<and> submitAnswer student1 \<lparr>questionId = 99, answer = ''Copper'', timeTaken = 3\<rparr> seedStore
     = (Inl NotFound, seedStore)
   \<and> snd (submitAnswer student1 \<lparr>questionId = 99, answer = ''Copper'', timeTaken = 3\<rparr> seedStore)
     = seedStore"
proof -
  let ?b1 = "\<lparr>questionId = 1, answer = ''Copper'', timeTaken = 3\<rparr>"
  let ?b2 = "\<lparr>questionId = 99, answer = ''Copper'', timeTaken = 3\<rparr>"
  have n: "\<not> authenticated anonymous" by (simp add: authenticated_def anonymous_def)
  have a: "authenticated student1" by (simp add: authenticated_def student1_def)
  have q: "getQuestion seedStore (questionId ?b2) = None"
    by (simp add: getQuestion_def sample_defs)
  note T1 = submitAnswer_error_unchanged [of anonymous ?b1 seedStore NotFound]
  note T2 = submitAnswer_error_unchanged [of student1 ?b2 seedStore NotFound]
  have r1: "submitAnswer anonymous ?b1 seedStore = (Inl Unauthenticated, seedStore)"
    using T1 n by blast
  have r2: "submitAnswer student1 ?b2 seedStore = (Inl NotFound, seedStore)"
    using T2 a q by blast
  then have "fst (submitAnswer student1 ?b2 seedStore) = Inl NotFound" by simp
  with T2 have r3: "snd (submitAnswer student1 ?b2 seedStore) = seedStore" by blast
  from r1 r2 r3 show ?thesis by blast
qed

section \<open>The options of a question\<close>




section \<open>The view-state machine\<close>

text \<open>Once a result is present, or outside the phase \<^verbatim>\<open>question\<close>, \<^verbatim>\<open>handleAnswer\<close> returns
  at its guard: nothing is submitted and the state stays as it is.\<close>

lemma handleAnswer_noop:
  "result s \<noteq> None \<or> phase s \<noteq> Question \<Longrightarrow> handleAnswer q now s ans = (s, [])"
  by (simp add: handleAnswer_def)

lemma tick_game:
  "phase s = Game \<Longrightarrow> gameProgress s < 100 \<Longrightarrow>
   tick s = (s\<lparr>gameProgress := gameProgress s + 2\<rparr>, [])"
  by (simp add: tick_def)

lemma tick_done:
  "phase s = Game \<Longrightarrow> gameProgress s \<ge> 100 \<Longrightarrow>
   tick s = (s\<lparr>phase := Question, gameProgress := 0\<rparr>, [ClearInterval, Refetch])"
  by (simp add: tick_def)

lemma ticks_progress:
  "phase s = Game \<Longrightarrow> gameProgress s = 0 \<Longrightarrow> n \<le> 50 \<Longrightarrow>
   ticks n s = (s\<lparr>gameProgress := 2 * int n\<rparr>, [])"
proof (induction n)
  case 0
  then show ?case by simp
next
  case (Suc n)
  then have ih: "ticks n s = (s\<lparr>gameProgress := 2 * int n\<rparr>, [])" by simp
  from Suc.prems have "phase (s\<lparr>gameProgress := 2 * int n\<rparr>) = Game"
    "gameProgress (s\<lparr>gameProgress := 2 * int n\<rparr>) < 100" by simp_all
  then have "tick (s\<lparr>gameProgress := 2 * int n\<rparr>) = (s\<lparr>gameProgress := 2 * int n + 2\<rparr>, [])"
    by (simp add: tick_game)
  with ih show ?case by simp
qed

lemma ticks_51:
  assumes "phase s = Game" and "gameProgress s = 0"
  shows "ticks 51 s = (s\<lparr>phase := Question, gameProgress := 0\<rparr>, [ClearInterval, Refetch])"
proof -
  have "ticks 50 s = (s\<lparr>gameProgress := 2 * int 50\<rparr>, [])"
    using assms by (intro ticks_progress) simp_all
  then have t50: "ticks 50 s = (s\<lparr>gameProgress := 100\<rparr>, [])" by simp
  have "tick (s\<lparr>gameProgress := 100\<rparr>) =
      (s\<lparr>gameProgress := 100\<rparr>\<lparr>phase := Question, gameProgress := 0\<rparr>, [ClearInterval, Refetch])"
    using assms by (intro tick_done) simp_all
  then have t: "tick (s\<lparr>gameProgress := 100\<rparr>) =
      (s\<lparr>phase := Question, gameProgress := 0\<rparr>, [ClearInterval, Refetch])" by simp
  have "ticks 51 s = ticks (Suc 50) s" by simp
  also have "\<dots> = (s\<lparr>phase := Question, gameProgress := 0\<rparr>, [ClearInterval, Refetch])"
    by (simp only: ticks.simps t50 t Let_def prod.case append_Nil)
  finally show ?thesis .
qed

lemma userStep_game: "phase s = Game \<Longrightarrow> userStep q now s u = (s, [])"
  by (cases u) (simp_all add: optionButtonsEnabled_def continueButtonShown_def)

lemma settle_between:
  "between s \<Longrightarrow> phase (settle s) = Question \<and> result (settle s) = None
     \<and> questionsAnswered (settle s) = questionsAnswered s"
  by (auto simp: between_def settle_def refetchThen_def ticks_51)

lemma answered_between:
  assumes "between s"
  shows "phase (answered q s t) = Result \<and> result (answered q s t) \<noteq> None
     \<and> questionsAnswered (answered q s t) = questionsAnswered s + 1"
proof -
  let ?s0 = "questionEffect (t_shown t) (settle s)"
  from settle_between [OF assms]
  have s0: "phase ?s0 = Question" "result ?s0 = None" "questionsAnswered ?s0 = questionsAnswered s"
    by (simp_all add: questionEffect_def)
  let ?s1 = "fst (userStep q (t_clicked t) ?s0 (ClickOption (t_answer t)))"
  from s0 have s1: "questionsAnswered ?s1 = questionsAnswered s"
    by (simp add: optionButtonsEnabled_def handleAnswer_def Let_def)
  have "answered q s t = fst (onSuccess (streak ?s0) (t_data t) ?s1)"
    by (simp add: answered_def Let_def)
  then show ?thesis using s1 by (simp add: onSuccess_def Let_def)
qed

lemma handleContinue_cases:
  "handleContinue s =
     (if questionsAnswered s mod 3 = 0 \<and> 0 < questionsAnswered s
      then (s\<lparr>phase := Game, gameProgress := 0, result := None\<rparr>, [])
      else (s\<lparr>phase := Loading, result := None\<rparr>, [Refetch]))"
  by (simp add: handleContinue_def)

lemma continue_between:
  fixes q :: question and t :: turn
  assumes "between s"
  defines "s' \<equiv> fst (userStep q (t_clicked t) (answered q s t) ClickContinue)"
  shows "between s' \<and> questionsAnswered s' = questionsAnswered s + 1
     \<and> phase s' = (if (questionsAnswered s + 1) mod 3 = 0 then Game else Loading)"
proof -
  from answered_between [OF assms(1), of q t]
  have a: "phase (answered q s t) = Result" "result (answered q s t) \<noteq> None"
    "questionsAnswered (answered q s t) = questionsAnswered s + 1" by simp_all
  then have "s' = fst (handleContinue (answered q s t))"
    by (simp add: s'_def continueButtonShown_def)
  then show ?thesis using a(3) by (simp add: handleContinue_cases between_def)
qed

lemma afterContinue_phase:
  "between s \<Longrightarrow> ts \<noteq> [] \<Longrightarrow>
   questionsAnswered (afterContinue q s ts) = questionsAnswered s + length ts
   \<and> phase (afterContinue q s ts) =
       (if (questionsAnswered s + length ts) mod 3 = 0 then Game else Loading)"
proof (induction ts arbitrary: s)
  case Nil
  then show ?case by simp
next
  case (Cons t ts)
  let ?s' = "fst (userStep q (t_clicked t) (answered q s t) ClickContinue)"
  from continue_between [OF Cons.prems(1), of q t]
  have s': "between ?s'" "questionsAnswered ?s' = questionsAnswered s + 1"
    "phase ?s' = (if (questionsAnswered s + 1) mod 3 = 0 then Game else Loading)"
    by simp_all
  show ?case
  proof (cases ts)
    case Nil
    with s' show ?thesis by simp
  next
    case (Cons t' ts')
    then have "ts \<noteq> []" by simp
    from Cons.IH [OF s'(1) this] s'(2) show ?thesis by simp
  qed
qed

lemma between_initial: "between (initialState now)"
  by (simp add: between_def initialState_def)

text \<open>
  Claim C6, amended. In the phase \<^verbatim>\<open>result\<close> the continue action enters \<^verbatim>\<open>game\<close> exactly
  when \<open>questionsAnswered\<close> is a positive multiple of 3, and otherwise enters
  \<^verbatim>\<open>loading\<close>, starts a refetch and reaches \<^verbatim>\<open>question\<close> when the refetch settles. In a
  session from the initial state, \<open>questionsAnswered\<close> counts the turns; the first,
  second, fourth and fifth continue enter \<^verbatim>\<open>loading\<close> and then \<^verbatim>\<open>question\<close>, the third and
  the sixth enter \<^verbatim>\<open>game\<close>.
\<close>

theorem continue_transitions:
  "(phase s = Result \<longrightarrow>
      (phase (fst (handleContinue s)) = Game
         \<longleftrightarrow> questionsAnswered s mod 3 = 0 \<and> 0 < questionsAnswered s)
      \<and> (phase (fst (handleContinue s)) \<noteq> Game \<longrightarrow>
           phase (fst (handleContinue s)) = Loading
           \<and> snd (handleContinue s) = [Refetch]
           \<and> phase (refetchThen (fst (handleContinue s))) = Question))
   \<and> (ts \<noteq> [] \<longrightarrow>
        questionsAnswered (afterContinue q (initialState now) ts) = length ts
        \<and> (phase (afterContinue q (initialState now) ts) = Game \<longleftrightarrow> length ts mod 3 = 0))
   \<and> (length ts \<in> {1, 2, 4, 5} \<longrightarrow>
        phase (afterContinue q (initialState now) ts) = Loading
        \<and> phase (settle (afterContinue q (initialState now) ts)) = Question)
   \<and> (length ts \<in> {3, 6} \<longrightarrow> phase (afterContinue q (initialState now) ts) = Game)"
proof -
  have one: "phase (fst (handleContinue s)) = Game
         \<longleftrightarrow> questionsAnswered s mod 3 = 0 \<and> 0 < questionsAnswered s"
    by (simp add: handleContinue_cases)
  have two: "phase (fst (handleContinue s)) \<noteq> Game \<longrightarrow>
           phase (fst (handleContinue s)) = Loading
           \<and> snd (handleContinue s) = [Refetch]
           \<and> phase (refetchThen (fst (handleContinue s))) = Question"
    by (simp add: handleContinue_cases refetchThen_def)
  have q0: "questionsAnswered (initialState now) = 0" by (simp add: initialState_def)
  have run: "questionsAnswered (afterContinue q (initialState now) ts) = length ts
      \<and> phase (afterContinue q (initialState now) ts) =
          (if length ts mod 3 = 0 then Game else Loading)" if "ts \<noteq> []"
    using afterContinue_phase [where s = "initialState now" and ts = ts and q = q,
        OF between_initial that] q0 by simp
  have three: "ts \<noteq> [] \<longrightarrow>
        questionsAnswered (afterContinue q (initialState now) ts) = length ts
        \<and> (phase (afterContinue q (initialState now) ts) = Game \<longleftrightarrow> length ts mod 3 = 0)"
    using run by simp
  have four: "length ts \<in> {1, 2, 4, 5} \<longrightarrow>
        phase (afterContinue q (initialState now) ts) = Loading
        \<and> phase (settle (afterContinue q (initialState now) ts)) = Question"
  proof
    assume l: "length ts \<in> {1, 2, 4, 5}"
    then have "ts \<noteq> []" by auto
    from run [OF this] l have "phase (afterContinue q (initialState now) ts) = Loading"
      by auto
    then show "phase (afterContinue q (initialState now) ts) = Loading
        \<and> phase (settle (afterContinue q (initialState now) ts)) = Question"
      by (simp add: settle_def refetchThen_def)
  qed
  have five: "length ts \<in> {3, 6} \<longrightarrow> phase (afterContinue q (initialState now) ts) = Game"
  proof
    assume l: "length ts \<in> {3, 6}"
    then have "ts \<noteq> []" by auto
    from run [OF this] l show "phase (afterContinue q (initialState now) ts) = Game" by auto
  qed
  from one two three four five show ?thesis by blast
qed

text \<open>
  Claim C6, as stated, fails at the sixth continue: it is said to enter \<^verbatim>\<open>loading\<close> with
  the fourth and the fifth, but \<open>questionsAnswered\<close> is 6 there and it enters \<^verbatim>\<open>game\<close>.
\<close>

theorem sixth_continue_counterexample:
  "phase (afterContinue q_copper (initialState 0)
      [sampleTurn, sampleTurn, sampleTurn, sampleTurn, sampleTurn, sampleTurn]) \<noteq> Loading"
proof -
  let ?ts = "[sampleTurn, sampleTurn, sampleTurn, sampleTurn, sampleTurn, sampleTurn]"
  have "?ts \<noteq> []" by simp
  from afterContinue_phase [where s = "initialState 0" and ts = ?ts and q = q_copper,
      OF between_initial this]
  have "phase (afterContinue q_copper (initialState 0) ?ts) = Game"
    by (simp add: initialState_def)
  then show ?thesis by simp
qed

theorem continue_transitions_witness:
  "phase (afterContinue q_copper (initialState 0) [sampleTurn, sampleTurn, sampleTurn]) = Game
   \<and> phase (afterContinue q_copper (initialState 0) [sampleTurn, sampleTurn, sampleTurn, sampleTurn])
       = Loading
   \<and> phase (settle (afterContinue q_copper (initialState 0)
        [sampleTurn, sampleTurn, sampleTurn, sampleTurn])) = Question
   \<and> phase (fst (handleContinue (answered q_copper (initialState 0) sampleTurn))) = Loading"
proof -
  let ?t3 = "[sampleTurn, sampleTurn, sampleTurn]"
  let ?t4 = "[sampleTurn, sampleTurn, sampleTurn, sampleTurn]"
  let ?r = "answered q_copper (initialState 0) sampleTurn"
  have l3: "length ?t3 \<in> {3, 6}" by simp
  have l4: "length ?t4 \<in> {1, 2, 4, 5}" by simp
  have r: "phase ?r = Result" "questionsAnswered ?r = 1"
    using answered_between [OF between_initial, of q_copper 0 sampleTurn]
    by (simp_all add: initialState_def)
  note T3 = continue_transitions [of ?r ?t3 q_copper 0]
  note T4 = continue_transitions [of ?r ?t4 q_copper 0]
  from T3 l3 have a: "phase (afterContinue q_copper (initialState 0) ?t3) = Game" by blast
  from T4 l4 have b1: "phase (afterContinue q_copper (initialState 0) ?t4) = Loading"
    by blast
  from T4 l4 have b2: "phase (settle (afterContinue q_copper (initialState 0) ?t4)) = Question"
    by blast
  note H = T3 [THEN conjunct1, THEN mp, OF r(1)]
  from H [THEN conjunct1] r(2) have "phase (fst (handleContinue ?r)) \<noteq> Game" by simp
  with H [THEN conjunct2] have c: "phase (fst (handleContinue ?r)) = Loading" by simp
  from a b1 b2 c show ?thesis by blast
qed

text \<open>Three correct turns from the initial state end at the start of the interstitial.\<close>

lemma gameStart_reached:
  "afterContinue q_copper (initialState 0) [sampleTurn, sampleTurn, sampleTurn] = gameStart"
  by (simp add: gameStart_def initialState_def sampleTurn_def sampleOutcome_def answered_def
      settle_def questionEffect_def optionButtonsEnabled_def continueButtonShown_def
      handleAnswer_def onSuccess_def handleContinue_def refetchThen_def Let_def)

text \<open>
  Claim C7. From the start of the phase \<^verbatim>\<open>game\<close> (counter 0), each of the first 50 ticks
  of the interval adds 2 to the progress counter and changes nothing else, so that after
  50 ticks, which take \<^verbatim>\<open>GAME_DURATION\<close> milliseconds, the counter is 100; the tick that
  finds it at 100 resets it to 0, sets the phase to \<^verbatim>\<open>question\<close> and starts a refetch.
  Meanwhile a click on an option or on the continue button changes nothing and starts
  nothing.
\<close>

theorem game_interstitial:
  assumes "phase s = Game" and "gameProgress s = 0"
  shows "tickInterval * 50 = GAME_DURATION
    \<and> (\<forall>n\<le>50. ticks n s = (s\<lparr>gameProgress := 2 * int n\<rparr>, []))
    \<and> phase (fst (ticks 50 s)) = Game \<and> gameProgress (fst (ticks 50 s)) = 100
    \<and> ticks 51 s = (s\<lparr>phase := Question, gameProgress := 0\<rparr>, [ClearInterval, Refetch])
    \<and> (\<forall>n\<le>50. \<forall>u. userStep q now (fst (ticks n s)) u = (fst (ticks n s), []))"
proof -
  have d: "tickInterval * 50 = GAME_DURATION"
    by (simp add: tickInterval_def GAME_DURATION_def)
  have p: "\<forall>n\<le>50. ticks n s = (s\<lparr>gameProgress := 2 * int n\<rparr>, [])"
    using assms by (simp add: ticks_progress)
  then have "ticks 50 s = (s\<lparr>gameProgress := 2 * int 50\<rparr>, [])" by blast
  then have e: "phase (fst (ticks 50 s)) = Game" "gameProgress (fst (ticks 50 s)) = 100"
    using assms(1) by simp_all
  have f: "ticks 51 s = (s\<lparr>phase := Question, gameProgress := 0\<rparr>, [ClearInterval, Refetch])"
    using assms by (rule ticks_51)
  have u: "\<forall>n\<le>50. \<forall>u. userStep q now (fst (ticks n s)) u = (fst (ticks n s), [])"
  proof (intro allI impI)
    fix n :: nat and u
    assume "n \<le> 50"
    with p have "ticks n s = (s\<lparr>gameProgress := 2 * int n\<rparr>, [])" by blast
    then have "phase (fst (ticks n s)) = Game" using assms(1) by simp
    then show "userStep q now (fst (ticks n s)) u = (fst (ticks n s), [])"
      by (rule userStep_game)
  qed
  from d p e f u show ?thesis by blast
qed

theorem game_interstitial_witness:
  "ticks 50 gameStart = (gameStart\<lparr>gameProgress := 100\<rparr>, [])
   \<and> ticks 51 gameStart = (gameStart\<lparr>phase := Question, gameProgress := 0\<rparr>, [ClearInterval, Refetch])
   \<and> userStep q_copper 7000 gameStart ClickContinue = (gameStart, [])
   \<and> userStep q_copper 7000 (fst (ticks 50 gameStart)) (ClickOption ''Wood'')
       = (fst (ticks 50 gameStart), [])"
proof -
  have h: "phase gameStart = Game" "gameProgress gameStart = 0"
    by (simp_all add: gameStart_def)
  note T = game_interstitial [OF h, of q_copper 7000]
  from T have "ticks 50 gameStart = (gameStart\<lparr>gameProgress := 2 * int 50\<rparr>, [])" by blast
  then have a: "ticks 50 gameStart = (gameStart\<lparr>gameProgress := 100\<rparr>, [])" by simp
  from T have b: "ticks 51 gameStart
      = (gameStart\<lparr>phase := Question, gameProgress := 0\<rparr>, [ClearInterval, Refetch])"
    by blast
  from T have u: "\<forall>n\<le>50. \<forall>u. userStep q_copper 7000 (fst (ticks n gameStart)) u
      = (fst (ticks n gameStart), [])" by blast
  from u have "userStep q_copper 7000 (fst (ticks 0 gameStart)) ClickContinue
      = (fst (ticks 0 gameStart), [])" by blast
  then have c: "userStep q_copper 7000 gameStart ClickContinue = (gameStart, [])" by simp
  from u have d: "userStep q_copper 7000 (fst (ticks 50 gameStart)) (ClickOption ''Wood'')
       = (fst (ticks 50 gameStart), [])" by blast
  from a b c d show ?thesis by blast
qed

text \<open>
  Claim C8 says that at most one answer per question instance is submitted for grading.
  The guard of \<^verbatim>\<open>handleAnswer\<close> and the disabling of the option buttons look at the result
  and at the phase only, and both change when the server's outcome arrives, not at the
  click: in the phase \<^verbatim>\<open>question\<close> with no result yet, a click on an option submits it
  and leaves the buttons enabled, and a second click before the outcome submits a second
  answer to the same question.
\<close>

theorem handleAnswer_resubmits:
  assumes "phase s = Question" and "result s = None"
  shows "userStep q now s (ClickOption a1) =
      (s\<lparr>selectedAnswer := Some a1\<rparr>,
       [SubmitAnswer \<lparr>questionId = qid q, answer = a1,
          timeTaken = roundJS (real_of_int (now - startTime s) / 1000)\<rparr>])
    \<and> userStep q now' (fst (userStep q now s (ClickOption a1))) (ClickOption a2) =
      (s\<lparr>selectedAnswer := Some a2\<rparr>,
       [SubmitAnswer \<lparr>questionId = qid q, answer = a2,
          timeTaken = roundJS (real_of_int (now' - startTime s) / 1000)\<rparr>])"
  using assms by (simp add: optionButtonsEnabled_def handleAnswer_def Let_def)

theorem handleAnswer_resubmits_witness:
  "snd (userStep q_copper 2000 shownState (ClickOption ''Wood''))
     = [SubmitAnswer \<lparr>questionId = 1, answer = ''Wood'', timeTaken = 1\<rparr>]
   \<and> snd (userStep q_copper 2300 (fst (userStep q_copper 2000 shownState (ClickOption ''Wood'')))
        (ClickOption ''Copper''))
     = [SubmitAnswer \<lparr>questionId = 1, answer = ''Copper'', timeTaken = 1\<rparr>]
   \<and> events (snd (submitAnswer student1 \<lparr>questionId = 1, answer = ''Copper'', timeTaken = 1\<rparr>
        (snd (submitAnswer student1 \<lparr>questionId = 1, answer = ''Wood'', timeTaken = 1\<rparr> seedStore))))
     = [\<lparr>ev_studentId = 2, ev_questionId = 1, ev_correct = False, ev_timeTaken = 1\<rparr>,
        \<lparr>ev_studentId = 2, ev_questionId = 1, ev_correct = True, ev_timeTaken = 1\<rparr>]"
proof -
  have h: "phase shownState = Question" "result shownState = None"
    by (simp_all add: shownState_def questionEffect_def initialState_def)
  have st: "startTime shownState = 1000"
    by (simp add: shownState_def questionEffect_def initialState_def)
  have p1: "\<lparr>questionId = qid q_copper, answer = ''Wood'',
        timeTaken = roundJS (real_of_int (2000 - startTime shownState) / 1000)\<rparr>
      = \<lparr>questionId = 1, answer = ''Wood'', timeTaken = 1\<rparr>"
    by (simp add: st q_copper_def roundJS_def)
  have p2: "\<lparr>questionId = qid q_copper, answer = ''Copper'',
        timeTaken = roundJS (real_of_int (2300 - startTime shownState) / 1000)\<rparr>
      = \<lparr>questionId = 1, answer = ''Copper'', timeTaken = 1\<rparr>"
    by (simp add: st q_copper_def roundJS_def)
  note T = handleAnswer_resubmits [OF h, of q_copper 2000 "''Wood''" 2300 "''Copper''"]
  have a: "snd (userStep q_copper 2000 shownState (ClickOption ''Wood''))
     = [SubmitAnswer \<lparr>questionId = 1, answer = ''Wood'', timeTaken = 1\<rparr>]"
    by (simp only: T [THEN conjunct1] snd_conv p1)
  have b: "snd (userStep q_copper 2300 (fst (userStep q_copper 2000 shownState (ClickOption ''Wood'')))
        (ClickOption ''Copper''))
     = [SubmitAnswer \<lparr>questionId = 1, answer = ''Copper'', timeTaken = 1\<rparr>]"
    by (simp only: T [THEN conjunct2] snd_conv p2)
  let ?b1 = "\<lparr>questionId = 1, answer = ''Wood'', timeTaken = 1\<rparr>"
  let ?b2 = "\<lparr>questionId = 1, answer = ''Copper'', timeTaken = 1\<rparr>"
  have u: "userId student1 = Some 2" "(2::nat) \<noteq> 0" by (simp_all add: student1_def)
  have q1: "getQuestion seedStore (questionId ?b1) = Some q_copper"
    by (simp add: getQuestion_def sample_defs)
  note s1 = submitAnswer_success [OF u q1]
  have q2: "getQuestion (snd (submitAnswer student1 ?b1 seedStore)) (questionId ?b2) = Some q_copper"
    unfolding s1 by (simp add: getQuestion_def sample_defs)
  note s2 = submitAnswer_success [OF u q2]
  have c: "events (snd (submitAnswer student1 ?b2 (snd (submitAnswer student1 ?b1 seedStore))))
     = [\<lparr>ev_studentId = 2, ev_questionId = 1, ev_correct = False, ev_timeTaken = 1\<rparr>,
        \<lparr>ev_studentId = 2, ev_questionId = 1, ev_correct = True, ev_timeTaken = 1\<rparr>]"
    unfolding s2 unfolding s1 by (simp add: sample_defs)
  from a b c show ?thesis by blast
qed

end
